theory Spec2Isabelle
  imports Main "HOL-Library.Word"
begin

section \<open>The data of main.cpp\<close>

text \<open>
  The program is a console around OpenCV: ORB feature extraction, brute-force descriptor
  matching, drawing and display, and the high-level stitcher. A \<open>cv::Mat\<close> is a header
  over a byte buffer; \<open>empty()\<close> holds when there is no buffer or no element.
\<close>

record Mat =
  rows :: nat
  cols :: nat
  data :: "8 word list"

definition Mat_empty :: "Mat \<Rightarrow> bool" where
  "Mat_empty m = (data m = [] \<or> rows m * cols m = 0)"

text \<open>The default-constructed matrix, \<open>cv::Mat()\<close> or \<open>return {}\<close>.\<close>

definition Mat_none :: Mat where
  "Mat_none = \<lparr>rows = 0, cols = 0, data = []\<rparr>"

text \<open>
  \<open>cv::DMatch\<close>: the index of the query descriptor, the index of the train descriptor and
  the distance between them (a whole number under the Hamming norm).
\<close>

record DMatch =
  queryIdx :: nat
  trainIdx :: nat
  distance :: nat

datatype NormType = NORM_L1 | NORM_L2 | NORM_HAMMING

datatype Mode = PANORAMA | SCANS

text \<open>
  \<open>cv::Stitcher::Status\<close>. The source names four enumerators; \<open>ERR_other\<close> stands for
  any further value of the enumeration, which is what reaches \<open>default:\<close> in the switch.
\<close>

datatype Status =
    OK
  | ERR_NEED_MORE_IMGS
  | ERR_HOMOGRAPHY_EST_FAIL
  | ERR_CAMERA_PARAMS_ADJUST_FAIL
  | ERR_other nat

text \<open>
  What a C++ call can do: return, or throw. \<open>catch (const cv::Exception&)\<close> selects by
  type, so the model keeps \<open>cv::Exception\<close> (with its \<open>what()\<close>) apart from every other
  exception type.
\<close>

datatype exn = cv_Exception string | other_exception string

datatype 'a outcome = Returned 'a | Thrown exn

section \<open>What the program does to the outside\<close>

text \<open>
  \<open>fmt::print\<close> is recorded with its format string and its arguments, unformatted. The
  other events are the calls the program makes into OpenCV, in program order.
\<close>

datatype fmt_arg =
    Arg_size nat
  | Arg_int int
  | Arg_string string
  | Arg_status Status

datatype event =
    Print string "fmt_arg list"
  | Call_detectAndCompute nat Mat
  | Call_match NormType Mat Mat
  | Call_drawMatches Mat Mat "DMatch list"
  | Call_resize Mat nat int
  | Call_namedWindow string
  | Call_imshow string Mat
  | Call_waitKey nat
  | Call_stitch Mode nat "Mat list"

text \<open>
  The OpenCV services the program calls. They are not part of the program, so they are
  parameters of every definition below: each theorem about the program holds for any
  behaviour of the library. Every service can return or throw.
  \<^item> \<open>ORB_detectAndCompute n img\<close>: \<open>cv::ORB::create(n)->detectAndCompute(img, noArray(), kps, descs)\<close>;
  \<^item> \<open>BFMatcher_match norm d1 d2\<close>: \<open>cv::BFMatcher(norm).match(d1, d2, matches)\<close>;
  \<^item> \<open>drawMatches\<close>, \<open>resize img width height\<close> (for \<open>cv::Size(width, height)\<close>),
    \<open>namedWindow\<close>, \<open>imshow\<close>, \<open>waitKey\<close>: the calls of the same names;
  \<^item> \<open>Stitcher_stitch mode n images result\<close>: a stitcher created for \<open>mode\<close> whose features
    finder is \<open>cv::ORB::create(n)\<close>, run on \<open>images\<close>; it returns a status or throws, and
    leaves some matrix in the output argument, which held \<open>result\<close> before.
  The keypoint type is left open: the program only counts keypoints.

  The record also carries the \<open>double\<close> arithmetic that \<open>show_image\<close> uses, uninterpreted:
  \<open>to_double\<close> is \<open>static_cast<double>\<close> of an \<open>int\<close>, \<open>double_div\<close> is \<open>/\<close> on
  \<open>double\<close>, and \<open>to_int\<close> is \<open>static_cast<int>\<close> of a \<open>double\<close>.
\<close>

record ('kp, 'double) OpenCV =
  ORB_detectAndCompute :: "nat \<Rightarrow> Mat \<Rightarrow> ('kp list \<times> Mat) outcome"
  BFMatcher_match :: "NormType \<Rightarrow> Mat \<Rightarrow> Mat \<Rightarrow> DMatch list outcome"
  drawMatches :: "Mat \<Rightarrow> 'kp list \<Rightarrow> Mat \<Rightarrow> 'kp list \<Rightarrow> DMatch list \<Rightarrow> Mat outcome"
  resize :: "Mat \<Rightarrow> nat \<Rightarrow> int \<Rightarrow> Mat outcome"
  namedWindow :: "string \<Rightarrow> unit outcome"
  imshow :: "string \<Rightarrow> Mat \<Rightarrow> unit outcome"
  waitKey :: "nat \<Rightarrow> int outcome"
  Stitcher_stitch :: "Mode \<Rightarrow> nat \<Rightarrow> Mat list \<Rightarrow> Mat \<Rightarrow> Status outcome \<times> Mat"
  to_double :: "nat \<Rightarrow> 'double"
  double_div :: "'double \<Rightarrow> 'double \<Rightarrow> 'double"
  to_int :: "'double \<Rightarrow> int"

section \<open>The functions of main.cpp\<close>

text \<open>
  A call into the library outside any \<open>try\<close> block: the call is recorded; when it throws,
  the exception leaves the calling function at once; when it returns, the function goes on
  with the value. \<open>emit\<close> puts prints in front of what follows them.
\<close>

definition call ::
  "event \<Rightarrow> 'a outcome \<Rightarrow> ('a \<Rightarrow> 'b outcome \<times> event list) \<Rightarrow> 'b outcome \<times> event list" where
  "call ev result continue =
     (case result of
        Thrown e \<Rightarrow> (Thrown e, [ev])
      | Returned v \<Rightarrow> (fst (continue v), ev # snd (continue v)))"

definition emit :: "event list \<Rightarrow> 'b outcome \<times> event list \<Rightarrow> 'b outcome \<times> event list" where
  "emit evs rest = (fst rest, evs @ snd rest)"

text \<open>
  \<open>show_image\<close>, lines 28 to 40: nothing for an empty image; otherwise the aspect ratio and
  the height in \<open>double\<close>, then resize, open the window, show, wait 100 ms. There is no
  handler, so an exception of any of the four calls leaves the function.
\<close>

definition show_image ::
  "('kp, 'double) OpenCV \<Rightarrow> string \<Rightarrow> Mat \<Rightarrow> nat \<Rightarrow> unit outcome \<times> event list" where
  "show_image cv window_name img width =
     (if Mat_empty img then (Returned (), [])
      else
        let aspect_ratio = double_div cv (to_double cv (cols img)) (to_double cv (rows img));
            height = to_int cv (double_div cv (to_double cv width) aspect_ratio)
        in call (Call_resize img width height) (resize cv img width height) (\<lambda>resized_img.
           call (Call_namedWindow window_name) (namedWindow cv window_name) (\<lambda>_.
           call (Call_imshow window_name resized_img) (imshow cv window_name resized_img) (\<lambda>_.
           call (Call_waitKey 100) (waitKey cv 100) (\<lambda>_.
           (Returned (), []))))))"

text \<open>
  \<open>detect_and_show_features\<close>, lines 43 to 77. It has no exception handler: an exception
  of the extractor, the matcher, \<open>drawMatches\<close> or \<open>show_image\<close> leaves it.
\<close>

definition detect_and_show_features ::
  "('kp, 'double) OpenCV \<Rightarrow> Mat \<Rightarrow> Mat \<Rightarrow> bool outcome \<times> event list" where
  "detect_and_show_features cv img1 img2 =
     call (Call_detectAndCompute 5000 img1) (ORB_detectAndCompute cv 5000 img1)
       (\<lambda>(keypoints1, descriptors1).
     call (Call_detectAndCompute 5000 img2) (ORB_detectAndCompute cv 5000 img2)
       (\<lambda>(keypoints2, descriptors2).
     emit [Print ''Detected {} keypoints in image 1\<newline>'' [Arg_size (length keypoints1)],
           Print ''Detected {} keypoints in image 2\<newline>'' [Arg_size (length keypoints2)]]
       (if length keypoints1 < 50 \<or> length keypoints2 < 50 then
          (Returned False,
           [Print ''Error: Not enough features detected in images\<newline>'' []])
        else
          call (Call_match NORM_HAMMING descriptors1 descriptors2)
            (BFMatcher_match cv NORM_HAMMING descriptors1 descriptors2)
            (\<lambda>matches.
          emit [Print ''Found {} matches between images\<newline>'' [Arg_size (length matches)]]
            (if length matches < 10 then
               (Returned False,
                [Print ''Error: Not enough matches between images\<newline>'' []])
             else
               call (Call_drawMatches img1 img2 matches)
                 (drawMatches cv img1 keypoints1 img2 keypoints2 matches)
                 (\<lambda>img_matches.
               case show_image cv ''Feature Matches'' img_matches 800 of
                 (Thrown e, shown) \<Rightarrow> (Thrown e, shown)
               | (Returned _, shown) \<Rightarrow> (Returned True, shown)))))))"

text \<open>
  \<open>stitch_images\<close>, lines 80 to 118. The stitcher is created for \<open>mode\<close>, its features
  finder is \<open>cv::ORB::create(5000)\<close>, and \<open>stitch\<close> writes the output argument
  \<open>result\<close>. The function returns a \<open>bool\<close>; the model pairs it with the matrix left
  in \<open>result\<close>. The handler catches \<open>cv::Exception\<close> only, so any other exception
  leaves the function.
\<close>

definition stitch_images ::
  "('kp, 'double) OpenCV \<Rightarrow> Mat list \<Rightarrow> Mat \<Rightarrow> Mode \<Rightarrow> (bool outcome \<times> Mat) \<times> event list" where
  "stitch_images cv images result mode =
     (let (stitched, result') = Stitcher_stitch cv mode 5000 images result;
          called = [Call_stitch mode 5000 images]
      in case stitched of
           Returned status \<Rightarrow>
             if status = OK then
               ((Returned True, result'),
                called @ [Print ''Stitching completed successfully\<newline>'' []])
             else
               ((Returned False, result'),
                called @
                [Print ''Stitching failed with status code: {}\<newline>'' [Arg_status status],
                 case status of
                   ERR_NEED_MORE_IMGS \<Rightarrow>
                     Print ''Error: Need more images or failed to find features\<newline>'' []
                 | ERR_HOMOGRAPHY_EST_FAIL \<Rightarrow>
                     Print ''Error: Homography estimation failed\<newline>'' []
                 | ERR_CAMERA_PARAMS_ADJUST_FAIL \<Rightarrow>
                     Print ''Error: Camera parameters adjustment failed\<newline>'' []
                 | _ \<Rightarrow>
                     Print ''Error: Unknown stitching error\<newline>'' []])
         | Thrown (cv_Exception what) \<Rightarrow>
             ((Returned False, result'),
              called @
              [Print ''OpenCV Exception caught during stitching: {}\<newline>'' [Arg_string what]])
         | Thrown (other_exception what) \<Rightarrow>
             ((Thrown (other_exception what), result'), called))"

section \<open>The library services the specification describes\<close>

text \<open>
  The bodies of \<open>cv::ORB::detectAndCompute\<close> and \<open>cv::BFMatcher::match\<close> are OpenCV
  code and are not in the repository. The definitions of this section describe them from
  the specification (sections 4.1 and 4.2) and are used only where a property of the
  service itself is in question. A descriptor is a fixed-length binary vector.
\<close>

type_synonym descriptor = "bool list"

text \<open>
  Modelled from the spec: \<open>extract\<close>, that is \<open>cv::ORB::detectAndCompute\<close>, which is missing
  from the source. "Detect up to a configurable maximum count N of locally-distinctive
  points using a corner/blob response function; compute a descriptor per point." The
  response function (\<open>detect\<close>, the points it finds) and the descriptor computation
  (\<open>describe\<close>) work on pixels in floating point and are parameters.
\<close>

definition extract_spec ::
  "(Mat \<Rightarrow> 'kp list) \<Rightarrow> (Mat \<Rightarrow> 'kp \<Rightarrow> descriptor) \<Rightarrow> nat \<Rightarrow> Mat
     \<Rightarrow> 'kp list \<times> descriptor list" where
  "extract_spec detect describe maxFeatures img =
     (let keypoints = take maxFeatures (detect img)
      in (keypoints, map (describe img) keypoints))"

text \<open>
  Modelled from the spec: the Hamming distance of two binary descriptors, the number of
  positions in which they differ (the metric of \<open>cv::NORM_HAMMING\<close>, missing from the
  source).
\<close>

definition hamming :: "descriptor \<Rightarrow> descriptor \<Rightarrow> nat" where
  "hamming a b = length (filter (\<lambda>(x, y). x \<noteq> y) (zip a b))"

text \<open>
  Modelled from the spec: "for each descriptor in A, find its nearest neighbor in B under
  the descriptor's native distance metric". \<open>nearest\<close> searches all of \<open>B\<close> and gives the
  index and the distance of the best partner, the first one among equals, and nothing when
  \<open>B\<close> is empty.
\<close>

fun nearest :: "('d \<Rightarrow> 'd \<Rightarrow> nat) \<Rightarrow> 'd \<Rightarrow> 'd list \<Rightarrow> (nat \<times> nat) option" where
  "nearest dist a [] = None"
| "nearest dist a (b # bs) =
     (case nearest dist a bs of
        None \<Rightarrow> Some (0, dist a b)
      | Some (j, d) \<Rightarrow> if dist a b \<le> d then Some (0, dist a b) else Some (Suc j, d))"

text \<open>
  Modelled from the spec: \<open>match\<close>, that is \<open>cv::BFMatcher(cv::NORM_HAMMING).match\<close> without
  cross-check, which is missing from the source. "Emit one Match per A-descriptor with its
  best B-partner and the resulting distance." \<open>match_from i\<close> is the loop over \<open>A\<close>, with
  \<open>i\<close> the index of the descriptor it is at.
\<close>

fun match_from :: "nat \<Rightarrow> descriptor list \<Rightarrow> descriptor list \<Rightarrow> DMatch list" where
  "match_from i [] B = []"
| "match_from i (a # A) B =
     (case nearest hamming a B of
        None \<Rightarrow> match_from (Suc i) A B
      | Some (j, d) \<Rightarrow> \<lparr>queryIdx = i, trainIdx = j, distance = d\<rparr> # match_from (Suc i) A B)"

definition match_spec :: "descriptor list \<Rightarrow> descriptor list \<Rightarrow> DMatch list" where
  "match_spec A B = match_from 0 A B"

section \<open>A library to run the program on\<close>

text \<open>
  A small stand-in for OpenCV, used to run the definitions on concrete inputs. It finds one
  keypoint per image row (at most the number asked for), returns \<open>n_matches\<close> matches,
  draws the two images side by side, refuses to resize to an empty size as \<open>cv::resize\<close>
  does, and gives a fixed stitching outcome. Its \<open>double\<close> values are exact fractions.
\<close>

definition stub_library :: "nat \<Rightarrow> Status outcome \<Rightarrow> Mat \<Rightarrow> (nat, nat \<times> nat) OpenCV" where
  "stub_library n_matches stitched pano =
     \<lparr>ORB_detectAndCompute = (\<lambda>nfeatures img. Returned (take nfeatures [0..<rows img], img)),
      BFMatcher_match = (\<lambda>norm d1 d2.
        Returned (map (\<lambda>i. \<lparr>queryIdx = i, trainIdx = 0, distance = 0\<rparr>) [0..<n_matches])),
      drawMatches = (\<lambda>img1 keypoints1 img2 keypoints2 matches.
        Returned \<lparr>rows = max (rows img1) (rows img2), cols = cols img1 + cols img2,
                  data = data img1 @ data img2\<rparr>),
      resize = (\<lambda>img width height.
        if width = 0 \<or> height \<le> 0 then Thrown (cv_Exception ''resize: empty size'')
        else Returned \<lparr>rows = nat height, cols = width, data = data img\<rparr>),
      namedWindow = (\<lambda>window_name. Returned ()),
      imshow = (\<lambda>window_name img. Returned ()),
      waitKey = (\<lambda>delay. Returned (-1)),
      Stitcher_stitch = (\<lambda>mode nfeatures images result. (stitched, pano)),
      to_double = (\<lambda>n. (n, 1)),
      double_div = (\<lambda>(a, b) (c, d). (a * d, b * c)),
      to_int = (\<lambda>(a, b). int (a div b))\<rparr>"

definition gray_image :: "nat \<Rightarrow> nat \<Rightarrow> Mat" where
  "gray_image r c = \<lparr>rows = r, cols = c, data = replicate (r * c) 0\<rparr>"

section \<open>The feature step\<close>




text \<open>
  C5. When either image yields fewer than 50 keypoints, the step signals the failure: it
  returns \<open>false\<close>, its last output is the not-enough-features line, and the matcher is
  not called on the pair. This holds for every library, throwing or not; the first two
  hypotheses name what the two extractions yielded.
\<close>

theorem too_few_keypoints_no_matching:
  assumes "ORB_detectAndCompute cv 5000 img1 = Returned (keypoints1, descriptors1)"
      and "ORB_detectAndCompute cv 5000 img2 = Returned (keypoints2, descriptors2)"
      and "length keypoints1 < 50 \<or> length keypoints2 < 50"
  shows "fst (detect_and_show_features cv img1 img2) = Returned False \<and>
         last (snd (detect_and_show_features cv img1 img2)) =
           Print ''Error: Not enough features detected in images\<newline>'' [] \<and>
         (\<forall>norm d1 d2.
            Call_match norm d1 d2 \<notin> set (snd (detect_and_show_features cv img1 img2)))"
  using assms
  by (auto simp: detect_and_show_features_def call_def emit_def)

text \<open>Forty-nine keypoints in the first image, eighty in the second.\<close>

theorem too_few_keypoints_no_matching_witness:
  "ORB_detectAndCompute (stub_library 12 (Returned OK) Mat_none) 5000 (gray_image 49 4) =
     Returned ([0..<49], gray_image 49 4) \<and>
   ORB_detectAndCompute (stub_library 12 (Returned OK) Mat_none) 5000 (gray_image 80 4) =
     Returned ([0..<80], gray_image 80 4) \<and>
   (length [0..<49] < 50 \<or> length [0..<80] < 50) \<and>
   fst (detect_and_show_features (stub_library 12 (Returned OK) Mat_none)
       (gray_image 49 4) (gray_image 80 4)) = Returned False \<and>
   last (snd (detect_and_show_features (stub_library 12 (Returned OK) Mat_none)
       (gray_image 49 4) (gray_image 80 4))) =
     Print ''Error: Not enough features detected in images\<newline>'' [] \<and>
   (\<forall>norm d1 d2.
      Call_match norm d1 d2 \<notin>
        set (snd (detect_and_show_features (stub_library 12 (Returned OK) Mat_none)
          (gray_image 49 4) (gray_image 80 4))))"
proof -
  have h1: "ORB_detectAndCompute (stub_library 12 (Returned OK) Mat_none) 5000
      (gray_image 49 4) = Returned ([0..<49], gray_image 49 4)"
    by (simp add: stub_library_def gray_image_def)
  have h2: "ORB_detectAndCompute (stub_library 12 (Returned OK) Mat_none) 5000
      (gray_image 80 4) = Returned ([0..<80], gray_image 80 4)"
    by (simp add: stub_library_def gray_image_def)
  have h3: "length [0..<49] < 50 \<or> length [0..<80] < 50"
    by simp
  from h1 h2 h3 too_few_keypoints_no_matching [OF h1 h2 h3] show ?thesis
    by blast
qed

text \<open>
  C4. When the match set has fewer than 10 entries, the step fails fast by its own check:
  it returns \<open>false\<close>, its last output is the not-enough-matches line, and nothing runs
  after the matcher but the two prints. No model is fitted: the outputs hold no call of
  the stitcher, no drawing and no display. This holds for every library, throwing or not;
  the hypotheses name what the extractions and the matcher yielded.
\<close>

theorem too_few_matches_fails_fast:
  assumes "ORB_detectAndCompute cv 5000 img1 = Returned (keypoints1, descriptors1)"
      and "ORB_detectAndCompute cv 5000 img2 = Returned (keypoints2, descriptors2)"
      and "50 \<le> length keypoints1"
      and "50 \<le> length keypoints2"
      and "BFMatcher_match cv NORM_HAMMING descriptors1 descriptors2 = Returned matches"
      and "length matches < 10"
  shows "fst (detect_and_show_features cv img1 img2) = Returned False \<and>
         snd (detect_and_show_features cv img1 img2) =
           [Call_detectAndCompute 5000 img1,
            Call_detectAndCompute 5000 img2,
            Print ''Detected {} keypoints in image 1\<newline>'' [Arg_size (length keypoints1)],
            Print ''Detected {} keypoints in image 2\<newline>'' [Arg_size (length keypoints2)],
            Call_match NORM_HAMMING descriptors1 descriptors2,
            Print ''Found {} matches between images\<newline>'' [Arg_size (length matches)],
            Print ''Error: Not enough matches between images\<newline>'' []]"
  using assms
  by (auto simp: detect_and_show_features_def call_def emit_def)

text \<open>Enough keypoints in both images, nine matches.\<close>

theorem too_few_matches_fails_fast_witness:
  "fst (detect_and_show_features (stub_library 9 (Returned OK) Mat_none)
      (gray_image 60 4) (gray_image 70 4)) = Returned False \<and>
   snd (detect_and_show_features (stub_library 9 (Returned OK) Mat_none)
      (gray_image 60 4) (gray_image 70 4)) =
     [Call_detectAndCompute 5000 (gray_image 60 4),
      Call_detectAndCompute 5000 (gray_image 70 4),
      Print ''Detected {} keypoints in image 1\<newline>'' [Arg_size 60],
      Print ''Detected {} keypoints in image 2\<newline>'' [Arg_size 70],
      Call_match NORM_HAMMING (gray_image 60 4) (gray_image 70 4),
      Print ''Found {} matches between images\<newline>'' [Arg_size 9],
      Print ''Error: Not enough matches between images\<newline>'' []]"
proof -
  have h1: "ORB_detectAndCompute (stub_library 9 (Returned OK) Mat_none) 5000
      (gray_image 60 4) = Returned ([0..<60], gray_image 60 4)"
    by (simp add: stub_library_def gray_image_def)
  have h2: "ORB_detectAndCompute (stub_library 9 (Returned OK) Mat_none) 5000
      (gray_image 70 4) = Returned ([0..<70], gray_image 70 4)"
    by (simp add: stub_library_def gray_image_def)
  have h3: "50 \<le> length [0..<60]" and h4: "50 \<le> length [0..<70]"
    by simp_all
  have h5: "BFMatcher_match (stub_library 9 (Returned OK) Mat_none) NORM_HAMMING
      (gray_image 60 4) (gray_image 70 4) =
      Returned (map (\<lambda>i. \<lparr>queryIdx = i, trainIdx = 0, distance = 0\<rparr>) [0..<9])"
    by (simp add: stub_library_def)
  have h6: "length (map (\<lambda>i. \<lparr>queryIdx = i, trainIdx = 0, distance = 0\<rparr>) [0..<9]) < 10"
    by simp
  from too_few_matches_fails_fast [OF h1 h2 h3 h4 h5 h6] show ?thesis
    by simp
qed

section \<open>The stitching step\<close>

text \<open>
  C1, as the specification states it: the composer either produces a panorama or returns
  one of the four typed failures, and never lets an exception reach the caller. The
  program differs on two runs. When the stitcher throws \<open>cv::Exception\<close>,
  \<open>stitch_images\<close> returns \<open>false\<close> after printing the exception line: none of the four
  failures is named. When the stitcher throws an exception of another type, the handler
  does not apply and the exception leaves \<open>stitch_images\<close>.
\<close>

theorem stitch_images_typed_result_counterexample:
  "stitch_images (stub_library 0 (Thrown (cv_Exception ''singular matrix'')) Mat_none)
       [gray_image 2 2, gray_image 2 2] Mat_none SCANS =
     ((Returned False, Mat_none),
      [Call_stitch SCANS 5000 [gray_image 2 2, gray_image 2 2],
       Print ''OpenCV Exception caught during stitching: {}\<newline>''
         [Arg_string ''singular matrix'']])
   \<and> fst (fst (stitch_images
       (stub_library 0 (Thrown (other_exception ''std::bad_alloc'')) Mat_none)
       [gray_image 2 2, gray_image 2 2] Mat_none SCANS)) =
     Thrown (other_exception ''std::bad_alloc'')"
  by (simp add: stitch_images_def stub_library_def)

text \<open>
  C1, amended. For every list of images, output argument and mode:
  \<^item> when the stitcher returns \<open>OK\<close>, \<open>stitch_images\<close> returns \<open>true\<close> and \<open>result\<close> holds
    what the stitcher wrote;
  \<^item> when it returns another status, \<open>stitch_images\<close> returns \<open>false\<close> after printing the
    status and the line of that status: need more images, homography estimation failed,
    camera parameters adjustment failed, or unknown for any other value;
  \<^item> when it throws \<open>cv::Exception\<close>, \<open>stitch_images\<close> catches it, prints its message and
    returns \<open>false\<close>;
  \<^item> an exception of any other type is not caught.
\<close>

theorem stitch_images_outcomes:
  assumes "Stitcher_stitch cv mode 5000 images result = (stitched, pano)"
  shows "(stitched = Returned OK \<longrightarrow>
            stitch_images cv images result mode =
              ((Returned True, pano),
               [Call_stitch mode 5000 images,
                Print ''Stitching completed successfully\<newline>'' []])) \<and>
         (stitched = Returned status \<and> status \<noteq> OK \<longrightarrow>
            stitch_images cv images result mode =
              ((Returned False, pano),
               [Call_stitch mode 5000 images,
                Print ''Stitching failed with status code: {}\<newline>'' [Arg_status status],
                Print
                  (if status = ERR_NEED_MORE_IMGS then
                     ''Error: Need more images or failed to find features\<newline>''
                   else if status = ERR_HOMOGRAPHY_EST_FAIL then
                     ''Error: Homography estimation failed\<newline>''
                   else if status = ERR_CAMERA_PARAMS_ADJUST_FAIL then
                     ''Error: Camera parameters adjustment failed\<newline>''
                   else ''Error: Unknown stitching error\<newline>'') []])) \<and>
         (stitched = Thrown (cv_Exception what) \<longrightarrow>
            stitch_images cv images result mode =
              ((Returned False, pano),
               [Call_stitch mode 5000 images,
                Print ''OpenCV Exception caught during stitching: {}\<newline>''
                  [Arg_string what]])) \<and>
         (stitched = Thrown (other_exception what) \<longrightarrow>
            stitch_images cv images result mode =
              ((Thrown (other_exception what), pano), [Call_stitch mode 5000 images]))"
  using assms
  by (auto simp: stitch_images_def split: Status.splits)

text \<open>One run for each of the four cases.\<close>

theorem stitch_images_outcomes_witness:
  "stitch_images (stub_library 0 (Returned OK) (gray_image 3 5))
       [gray_image 2 2, gray_image 2 3] Mat_none SCANS =
     ((Returned True, gray_image 3 5),
      [Call_stitch SCANS 5000 [gray_image 2 2, gray_image 2 3],
       Print ''Stitching completed successfully\<newline>'' []])
   \<and> stitch_images (stub_library 0 (Returned ERR_HOMOGRAPHY_EST_FAIL) Mat_none)
       [gray_image 2 2, gray_image 2 3] Mat_none SCANS =
     ((Returned False, Mat_none),
      [Call_stitch SCANS 5000 [gray_image 2 2, gray_image 2 3],
       Print ''Stitching failed with status code: {}\<newline>''
         [Arg_status ERR_HOMOGRAPHY_EST_FAIL],
       Print ''Error: Homography estimation failed\<newline>'' []])
   \<and> stitch_images (stub_library 0 (Thrown (cv_Exception ''bad size'')) Mat_none)
       [gray_image 2 2, gray_image 2 3] Mat_none PANORAMA =
     ((Returned False, Mat_none),
      [Call_stitch PANORAMA 5000 [gray_image 2 2, gray_image 2 3],
       Print ''OpenCV Exception caught during stitching: {}\<newline>''
         [Arg_string ''bad size'']])
   \<and> stitch_images (stub_library 0 (Thrown (other_exception ''std::bad_alloc'')) Mat_none)
       [gray_image 2 2, gray_image 2 3] Mat_none SCANS =
     ((Thrown (other_exception ''std::bad_alloc''), Mat_none),
      [Call_stitch SCANS 5000 [gray_image 2 2, gray_image 2 3]])"
  using
    stitch_images_outcomes
      [of "stub_library 0 (Returned OK) (gray_image 3 5)" SCANS
          "[gray_image 2 2, gray_image 2 3]" Mat_none "Returned OK" "gray_image 3 5"]
    stitch_images_outcomes
      [of "stub_library 0 (Returned ERR_HOMOGRAPHY_EST_FAIL) Mat_none" SCANS
          "[gray_image 2 2, gray_image 2 3]" Mat_none "Returned ERR_HOMOGRAPHY_EST_FAIL"
          Mat_none ERR_HOMOGRAPHY_EST_FAIL]
    stitch_images_outcomes
      [of "stub_library 0 (Thrown (cv_Exception ''bad size'')) Mat_none" PANORAMA
          "[gray_image 2 2, gray_image 2 3]" Mat_none "Thrown (cv_Exception ''bad size'')"
          Mat_none _ "''bad size''"]
    stitch_images_outcomes
      [of "stub_library 0 (Thrown (other_exception ''std::bad_alloc'')) Mat_none" SCANS
          "[gray_image 2 2, gray_image 2 3]" Mat_none
          "Thrown (other_exception ''std::bad_alloc'')" Mat_none _ "''std::bad_alloc''"]
  by (simp add: stub_library_def)

section \<open>The services as the specification describes them\<close>

text \<open>
  C2. For every image, \<open>extract\<close> returns a keypoint sequence and a descriptor sequence of
  equal length, and that length does not exceed \<open>maxFeatures\<close>; the program asks for 5000
  at both places where it creates the extractor.
\<close>

theorem extract_spec_lengths:
  "length (fst (extract_spec detect describe maxFeatures img)) =
     length (snd (extract_spec detect describe maxFeatures img)) \<and>
   length (fst (extract_spec detect describe maxFeatures img)) \<le> maxFeatures \<and>
   length (fst (extract_spec detect describe 5000 img)) \<le> 5000"
  by (simp add: extract_spec_def Let_def)

text \<open>A detector that finds 6000 points, cut at 5000.\<close>

theorem extract_spec_lengths_witness:
  "length (snd (extract_spec (\<lambda>img. [0..<6000]) (\<lambda>img k. [even k]) 5000 (gray_image 100 100)))
     = 5000"
proof -
  have "length (fst (extract_spec (\<lambda>img. [0..<6000]) (\<lambda>img k. [even k]) 5000
          (gray_image 100 100))) = 5000"
    by (simp add: extract_spec_def Let_def)
  with extract_spec_lengths
    [of "\<lambda>img. [0..<6000]" "\<lambda>img k. [even k]" 5000 "gray_image 100 100"]
  show ?thesis by simp
qed

lemma nearest_None_iff: "nearest dist a B = None \<longleftrightarrow> B = []"
  by (cases B) (auto split: option.splits)

lemma nearest_SomeD:
  "nearest dist a B = Some (j, d) \<Longrightarrow>
     j < length B \<and> d = dist a (B ! j) \<and> (\<forall>k < length B. d \<le> dist a (B ! k))"
proof (induction B arbitrary: j d)
  case Nil
  then show ?case by simp
next
  case (Cons b bs)
  show ?case
  proof (cases "nearest dist a bs")
    case None
    then have "bs = []" by (simp add: nearest_None_iff)
    with Cons.prems None show ?thesis by auto
  next
    case (Some p)
    obtain j' d' where p: "p = (j', d')" by (cases p)
    from Cons.IH [of j' d'] Some p
    have ih: "j' < length bs" "d' = dist a (bs ! j')" "\<forall>k < length bs. d' \<le> dist a (bs ! k)"
      by auto
    show ?thesis
    proof (cases "dist a b \<le> d'")
      case True
      with Cons.prems Some p have jd: "j = 0" "d = dist a b" by auto
      have "d \<le> dist a ((b # bs) ! k)" if "k < length (b # bs)" for k
        using that ih(3) True jd by (cases k) (auto intro: order_trans)
      with jd show ?thesis by simp
    next
      case False
      with Cons.prems Some p have jd: "j = Suc j'" "d = d'" by auto
      have "d \<le> dist a ((b # bs) ! k)" if "k < length (b # bs)" for k
        using that ih(3) False jd by (cases k) auto
      with jd ih show ?thesis by simp
    qed
  qed
qed

lemma match_from_Nil: "match_from i A [] = []"
  by (induction A arbitrary: i) auto

lemma length_match_from: "B \<noteq> [] \<Longrightarrow> length (match_from i A B) = length A"
  by (induction A arbitrary: i) (auto simp: nearest_None_iff split: option.splits)

lemma match_from_nth:
  "B \<noteq> [] \<Longrightarrow> k < length A \<Longrightarrow>
     \<exists>j d. nearest hamming (A ! k) B = Some (j, d) \<and>
           match_from i A B ! k = \<lparr>queryIdx = i + k, trainIdx = j, distance = d\<rparr>"
proof (induction A arbitrary: i k)
  case Nil
  then show ?case by simp
next
  case (Cons a A)
  from Cons.prems(1) obtain j d where n: "nearest hamming a B = Some (j, d)"
    by (cases "nearest hamming a B") (auto simp: nearest_None_iff)
  show ?case
  proof (cases k)
    case 0
    with n show ?thesis by simp
  next
    case (Suc k')
    with Cons.prems have "k' < length A" by simp
    from Cons.IH [OF Cons.prems(1) this, of "Suc i"] n Suc show ?thesis by simp
  qed
qed

text \<open>
  C3. For descriptor sequences \<open>A\<close> and \<open>B\<close> with \<open>B\<close> not empty (and so for every pair of
  non-empty sequences), \<open>match\<close> emits exactly one match per descriptor of \<open>A\<close>, in the
  order of \<open>A\<close>; the match of the \<open>i\<close>-th descriptor pairs it with a descriptor of \<open>B\<close>
  that no other descriptor of \<open>B\<close> beats in Hamming distance, and carries that distance.
\<close>

theorem match_spec_nearest:
  assumes "B \<noteq> []"
  shows "length (match_spec A B) = length A \<and>
         (\<forall>i < length A.
            queryIdx (match_spec A B ! i) = i \<and>
            trainIdx (match_spec A B ! i) < length B \<and>
            distance (match_spec A B ! i) =
              hamming (A ! i) (B ! trainIdx (match_spec A B ! i)) \<and>
            (\<forall>j < length B. distance (match_spec A B ! i) \<le> hamming (A ! i) (B ! j)))"
proof -
  have len: "length (match_spec A B) = length A"
    using assms by (simp add: match_spec_def length_match_from)
  have each: "queryIdx (match_spec A B ! i) = i \<and>
      trainIdx (match_spec A B ! i) < length B \<and>
      distance (match_spec A B ! i) = hamming (A ! i) (B ! trainIdx (match_spec A B ! i)) \<and>
      (\<forall>j < length B. distance (match_spec A B ! i) \<le> hamming (A ! i) (B ! j))"
    if i: "i < length A" for i
  proof -
    from match_from_nth [OF assms i, of 0] obtain j d
      where n: "nearest hamming (A ! i) B = Some (j, d)"
        and m: "match_spec A B ! i = \<lparr>queryIdx = i, trainIdx = j, distance = d\<rparr>"
      by (auto simp: match_spec_def)
    from nearest_SomeD [OF n] m show ?thesis by auto
  qed
  from len each show ?thesis by blast
qed

text \<open>Two descriptors matched against two; the second one is looked at.\<close>

theorem match_spec_nearest_witness:
  "[[False, True], [True, True]] \<noteq> [] \<and>
   length (match_spec [[True, True], [False, False]] [[False, True], [True, True]]) = 2 \<and>
   queryIdx (match_spec [[True, True], [False, False]] [[False, True], [True, True]] ! 1) = 1 \<and>
   distance (match_spec [[True, True], [False, False]] [[False, True], [True, True]] ! 1)
     \<le> hamming [False, False] [True, True]"
proof -
  have h: "[[False, True], [True, True]] \<noteq> []"
    by simp
  have i1: "1 < length [[True, True], [False, False]]"
    by simp
  have j1: "1 < length [[False, True], [True, True]]"
    by simp
  note t = match_spec_nearest [OF h, of "[[True, True], [False, False]]"]
  note q = t [THEN conjunct2, rule_format, OF i1]
  from t [THEN conjunct1] have len:
    "length (match_spec [[True, True], [False, False]] [[False, True], [True, True]]) = 2"
    by simp
  from q [THEN conjunct2, THEN conjunct2, THEN conjunct2, rule_format, OF j1]
  have d: "distance
      (match_spec [[True, True], [False, False]] [[False, True], [True, True]] ! 1)
      \<le> hamming [False, False] [True, True]"
    by simp
  from h len q [THEN conjunct1] d show ?thesis
    by (intro conjI)
qed

text \<open>
  C6. When either descriptor sequence is empty, \<open>match\<close> returns the empty match sequence:
  an ordinary value of its result type, handed to the caller like any other.
\<close>

theorem match_spec_empty: "A = [] \<or> B = [] \<Longrightarrow> match_spec A B = []"
  by (auto simp: match_spec_def match_from_Nil)

text \<open>No train descriptors; no query descriptors.\<close>

theorem match_spec_empty_witness:
  "match_spec [[True, False], [False, False]] [] = [] \<and>
   match_spec [] [[True, False], [False, False]] = []"
  using match_spec_empty [of "[[True, False], [False, False]]" "[]"]
    match_spec_empty [of "[]" "[[True, False], [False, False]]"]
  by simp

end
